theory Spec2Isabelle
  imports Complex_Main "HOL-Library.Sublist"
begin

section \<open>Celcoin BaaS tester: values, strings and numbers\<close>

text \<open>
  The program is a Python script that calls a remote HTTP API, records every call in a
  session and renders the session as a report. Everything the script reads from outside
  (the HTTP outcome of a call, the clock, random identifiers) is an explicit argument of
  the model; everything it mutates (the tester object, its session, the calls it puts on
  the network) is explicit state that each operation returns updated. Console output
  (the \<open>log_*\<close> methods and \<open>print\<close>) has no effect on any value and is left out.

  Python floats are modelled by the rational number they denote, so float arithmetic is
  exact here; strings are byte strings (UTF-8), and case mapping is the ASCII one.
\<close>

text \<open>A decoded JSON value, as \<open>response.json()\<close> returns it and as the payload
  dictionaries are built. \<open>JNull\<close> is Python's \<open>None\<close>; a \<open>JObj\<close> holds the
  items of a \<open>dict\<close> in insertion order.\<close>

datatype json =
    JNull
  | JBool bool
  | JInt int
  | JFloat rat
  | JStr string
  | JArr "json list"
  | JObj "(string \<times> json) list"

text \<open>Python truthiness (\<open>if x:\<close>, \<open>x or d\<close>) of such a value.\<close>

fun truthy :: "json \<Rightarrow> bool" where
  "truthy JNull = False"
| "truthy (JBool b) = b"
| "truthy (JInt i) = (i \<noteq> 0)"
| "truthy (JFloat r) = (r \<noteq> 0)"
| "truthy (JStr s) = (s \<noteq> [])"
| "truthy (JArr xs) = (xs \<noteq> [])"
| "truthy (JObj kvs) = (kvs \<noteq> [])"

text \<open>\<open>d.get(k)\<close>: the value stored under \<open>k\<close>, \<open>None\<close> when the key is absent.\<close>

definition dict_get :: "(string \<times> json) list \<Rightarrow> string \<Rightarrow> json" where
  "dict_get d k = (case map_of d k of None \<Rightarrow> JNull | Some v \<Rightarrow> v)"

text \<open>\<open>str.upper()\<close> and \<open>str.lower()\<close> on ASCII letters.\<close>

definition upper_char :: "char \<Rightarrow> char" where
  "upper_char c =
     (let n = (of_char c :: nat) in if 97 \<le> n \<and> n \<le> 122 then char_of (n - 32) else c)"

definition lower_char :: "char \<Rightarrow> char" where
  "lower_char c =
     (let n = (of_char c :: nat) in if 65 \<le> n \<and> n \<le> 90 then char_of (n + 32) else c)"

definition upper :: "string \<Rightarrow> string" where
  "upper s = map upper_char s"

definition lower :: "string \<Rightarrow> string" where
  "lower s = map lower_char s"

text \<open>\<open>s.replace(old, "")\<close>: every non-overlapping occurrence of \<open>old\<close>, found
  from the left, is removed; an empty \<open>old\<close> leaves \<open>s\<close> as it is.\<close>

function str_remove :: "string \<Rightarrow> string \<Rightarrow> string" where
  "str_remove old s =
     (if old = [] \<or> s = [] then s
      else if prefix old s then str_remove old (drop (length old) s)
      else hd s # str_remove old (tl s))"
  by pat_completeness auto
termination
  by (relation "measure (\<lambda>(old, s). length s)") auto

declare str_remove.simps [simp del]

text \<open>\<open>str(n)\<close> for an integer, in decimal.\<close>

definition digit_char :: "nat \<Rightarrow> char" where
  "digit_char d = char_of (48 + d)"

function str_nat :: "nat \<Rightarrow> string" where
  "str_nat n = (if n < 10 then [digit_char n] else str_nat (n div 10) @ [digit_char (n mod 10)])"
  by pat_completeness auto
termination
  by (relation "measure id") auto

declare str_nat.simps [simp del]

definition str_int :: "int \<Rightarrow> string" where
  "str_int i = (if i < 0 then ''-'' @ str_nat (nat (- i)) else str_nat (nat i))"

text \<open>\<open>f"{x:.df}"\<close> for a finite float: the exact value rounded to \<open>d\<close> decimals,
  ties to even, with a minus sign whenever \<open>x\<close> is negative.\<close>

definition round_half_even :: "rat \<Rightarrow> int" where
  "round_half_even x =
     (let f = \<lfloor>x\<rfloor>; r = x - of_int f
      in if r < 1 / 2 then f else if 1 / 2 < r then f + 1 else if even f then f else f + 1)"

definition zero_pad :: "nat \<Rightarrow> string \<Rightarrow> string" where
  "zero_pad d s = replicate (d - length s) CHR ''0'' @ s"

definition fmt_fixed :: "nat \<Rightarrow> rat \<Rightarrow> string" where
  "fmt_fixed d x =
     (let n = nat (round_half_even (\<bar>x\<bar> * 10 ^ d))
      in (if x < 0 then ''-'' else '''') @ str_nat (n div 10 ^ d)
         @ (if d = 0 then '''' else ''.'' @ zero_pad d (str_nat (n mod 10 ^ d))))"

text \<open>\<open>needle in haystack\<close> for strings.\<close>

definition contains :: "string \<Rightarrow> string \<Rightarrow> bool" where
  "contains haystack needle = sublist needle haystack"

section \<open>TestResult and TestSession\<close>

text \<open>\<open>datetime.now()\<close> is a count of microseconds; \<open>time.time()\<close> is a float of
  seconds.\<close>

type_synonym datetime = int

record test_result =
  test_name :: string
  endpoint :: string
  http_method :: string  \<comment> \<open>the attribute \<open>method\<close>\<close>
  timestamp :: datetime
  request_payload :: json
  response_status :: "int option"
  response_body :: json
  response_headers :: "(string \<times> string) list option"
  execution_time :: "rat option"
  success :: bool
  error_message :: "string option"

text \<open>\<open>TestResult.__init__\<close>; \<open>now\<close> is the reading of \<open>datetime.now()\<close>.\<close>

definition new_test_result :: "string \<Rightarrow> string \<Rightarrow> string \<Rightarrow> datetime \<Rightarrow> test_result" where
  "new_test_result name ep meth now =
     \<lparr> test_name = name, endpoint = ep, http_method = meth, timestamp = now,
       request_payload = JNull, response_status = None, response_body = JNull,
       response_headers = None, execution_time = None, success = False,
       error_message = None \<rparr>"

record test_session =
  session_id :: string
  start_time :: datetime
  results :: "test_result list"
  end_time :: "datetime option"

text \<open>\<open>TestSession.__init__\<close>; \<open>uid\<close> is \<open>str(uuid.uuid4())\<close>.\<close>

definition new_test_session :: "string \<Rightarrow> datetime \<Rightarrow> test_session" where
  "new_test_session uid now =
     \<lparr> session_id = take 8 uid, start_time = now, results = [], end_time = None \<rparr>"

definition add_result :: "test_session \<Rightarrow> test_result \<Rightarrow> test_session" where
  "add_result s r = s\<lparr> results := results s @ [r] \<rparr>"

definition finish :: "test_session \<Rightarrow> datetime \<Rightarrow> test_session" where
  "finish s now = s\<lparr> end_time := Some now \<rparr>"

definition get_duration :: "test_session \<Rightarrow> string" where
  "get_duration s =
     (case end_time s of
        Some e \<Rightarrow> fmt_fixed 2 (of_int (e - start_time s) / 1000000) @ ''s''
      | None \<Rightarrow> ''Em andamento'')"

section \<open>Configuration and the tester's state\<close>

datatype py_exception =
    ValueError string
  | ZeroDivisionError
  | TypeError

record celcoin_config =
  BASE_URL :: string
  CLIENT_ID :: string
  CLIENT_SECRET :: string

text \<open>\<open>CelcoinConfig\<close>: the three values come from the environment
  (\<open>os.getenv\<close>, \<open>None\<close> when a variable is not set); construction fails when the
  client id or the secret is missing or empty.\<close>

definition celcoin_config_init ::
  "string option \<Rightarrow> string option \<Rightarrow> string option \<Rightarrow> py_exception + celcoin_config" where
  "celcoin_config_init base_env id_env secret_env =
     (let base = (case base_env of None \<Rightarrow> ''https://sandbox.openfinance.celcoin.dev''
                  | Some b \<Rightarrow> b)
      in case (id_env, secret_env) of
           (Some i, Some s) \<Rightarrow>
             if i = [] \<or> s = []
             then Inl (ValueError ''CLIENT_ID e CLIENT_SECRET devem ser configurados no arquivo .env'')
             else Inr \<lparr> BASE_URL = base, CLIENT_ID = i, CLIENT_SECRET = s \<rparr>
         | _ \<Rightarrow> Inl (ValueError ''CLIENT_ID e CLIENT_SECRET devem ser configurados no arquivo .env''))"

text \<open>A header value is a literal text or the f-string \<open>f"Bearer {token}"\<close>, kept
  with the stored value it interpolates (for a string token the text is
  \<open>Bearer\<close>, a space and the token).\<close>

datatype header_value = Text string | Bearer json

type_synonym headers = "(string \<times> header_value) list"

text \<open>The calls the script makes through the \<open>requests\<close> library, with the arguments
  it passes: \<open>post(url, headers=, json=)\<close>, \<open>get(url, headers=, params=)\<close>,
  \<open>put(url, headers=, json=)\<close>, \<open>delete(url, headers=)\<close> and the form-encoded
  \<open>post(url, data=)\<close> of the token request.\<close>

datatype http_call =
    Post string headers json
  | Get string headers json
  | Put string headers json
  | Delete string headers
  | PostForm string "(string \<times> string) list"

fun call_headers :: "http_call \<Rightarrow> headers option" where
  "call_headers (Post u h p) = Some h"
| "call_headers (Get u h q) = Some h"
| "call_headers (Put u h p) = Some h"
| "call_headers (Delete u h) = Some h"
| "call_headers (PostForm u d) = None"

text \<open>What the network answers to one call: the library raises (\<open>str(e)\<close> is the
  message kept), or a response arrives. \<open>resp_json\<close> is what \<open>response.json()\<close>
  returns, \<open>None\<close> when it raises because the body is not valid JSON.\<close>

record http_response =
  status_code :: int
  resp_headers :: "(string \<times> string) list"
  resp_text :: string
  resp_json :: "json option"

datatype http_outcome = Raised string | Responded http_response

text \<open>The outside world during one operation: the reading of \<open>datetime.now()\<close>, the
  two readings of \<open>time.time()\<close> around the call, and the outcome of the call.\<close>

record call_env =
  now :: datetime
  t_start :: rat
  t_end :: rat
  outcome :: http_outcome

text \<open>\<open>CelcoinTester\<close>. The field \<open>wire\<close> is not an attribute of the class: it is
  the list of calls made through \<open>requests\<close> so far, in order, which makes the network
  effect of each operation a value.\<close>

record celcoin_tester =
  config :: celcoin_config
  access_token :: json
  token_expires_at :: "datetime option"
  session :: test_session
  wire :: "http_call list"

text \<open>\<open>CelcoinTester.__init__\<close>, for a configuration that was constructed (a raise
  of \<open>celcoin_config_init\<close> leaves no tester); \<open>uid\<close> and \<open>t\<close> are the
  identifier and the clock reading of the new session.\<close>

definition new_celcoin_tester :: "celcoin_config \<Rightarrow> string \<Rightarrow> datetime \<Rightarrow> celcoin_tester" where
  "new_celcoin_tester cfg uid t =
     \<lparr> config = cfg, access_token = JNull, token_expires_at = None,
       session = new_test_session uid t, wire = [] \<rparr>"

definition get_headers :: "celcoin_tester \<Rightarrow> headers" where
  "get_headers st =
     [(''Authorization'', Bearer (access_token st)),
      (''Content-Type'', Text ''application/json'')]"

section \<open>The executor\<close>

text \<open>\<open>_make_request\<close>, in the order of the source. The branch on the method either
  makes a call or raises \<open>ValueError\<close> without calling (\<open>select_call\<close> then
  gives the message of the exception); a raise of the library or that \<open>ValueError\<close>
  is caught by the handler, which fills the failed result. The result
  is appended to the session on every path and returned.\<close>

definition unsupported_method :: "string \<Rightarrow> string" where
  "unsupported_method meth =
     ''M'' @ [CHR 0xC3, CHR 0xA9] @ ''todo HTTP n'' @ [CHR 0xC3, CHR 0xA3]
       @ ''o suportado: '' @ meth"

definition select_call ::
  "string \<Rightarrow> string \<Rightarrow> headers \<Rightarrow> json \<Rightarrow> json \<Rightarrow> string + http_call" where
  "select_call meth url hdrs payload params =
     (if upper meth = ''POST'' then Inr (Post url hdrs payload)
      else if upper meth = ''GET'' then Inr (Get url hdrs params)
      else if upper meth = ''PUT'' then Inr (Put url hdrs payload)
      else if upper meth = ''DELETE'' then Inr (Delete url hdrs)
      else Inl (unsupported_method meth))"

definition make_request ::
  "celcoin_tester \<Rightarrow> string \<Rightarrow> string \<Rightarrow> json \<Rightarrow> json \<Rightarrow> string \<Rightarrow> call_env
     \<Rightarrow> test_result \<times> celcoin_tester" where
  "make_request st meth url payload params name env =
     (let result = (new_test_result name (str_remove (BASE_URL (config st)) url) meth (now env))
                     \<lparr> request_payload := payload \<rparr>;
          hdrs = (if truthy (access_token st) then get_headers st
                  else [(''Content-Type'', Text ''application/json'')]);
          failed = (\<lambda>msg. result \<lparr> execution_time := Some (t_end env - t_start env),
                                    success := False, error_message := Some msg \<rparr>);
          (result', wire') =
            (case select_call meth url hdrs payload params of
               Inl msg \<Rightarrow> (failed msg, wire st)
             | Inr call \<Rightarrow>
                 (case outcome env of
                    Raised msg \<Rightarrow> (failed msg, wire st @ [call])
                  | Responded response \<Rightarrow>
                      (let ok = (status_code response \<in> {200, 201, 202});
                           filled = result
                             \<lparr> execution_time := Some (t_end env - t_start env),
                               response_status := Some (status_code response),
                               response_headers := Some (resp_headers response),
                               response_body :=
                                 (case resp_json response of
                                    Some j \<Rightarrow> j
                                  | None \<Rightarrow> JObj [(''raw_response'', JStr (resp_text response))]),
                               success := ok \<rparr>
                       in (if \<not> ok
                           then filled \<lparr> error_message :=
                                  Some (''HTTP '' @ str_int (status_code response) @ '': ''
                                        @ resp_text response) \<rparr>
                           else filled,
                           wire st @ [call]))))
      in (result', st \<lparr> session := add_result (session st) result', wire := wire' \<rparr>))"

section \<open>Authentication\<close>

text \<open>\<open>authenticate\<close>. The whole body is inside \<open>try\<close>; the handler logs and returns
  \<open>False\<close>. Raises inside the body: the call itself, \<open>response.json()\<close> on a body that
  is not JSON, and \<open>token_data.get\<close> when the decoded body is not a \<open>dict\<close>. The
  \<open>TestResult\<close> is created after the call returned.\<close>

definition auth_name :: string where
  "auth_name = ''Autentica'' @ [CHR 0xC3, CHR 0xA7, CHR 0xC3, CHR 0xA3] @ ''o OAuth2''"

definition auth_error :: "int \<Rightarrow> string" where
  "auth_error status =
     ''Erro na autentica'' @ [CHR 0xC3, CHR 0xA7, CHR 0xC3, CHR 0xA3] @ ''o: '' @ str_int status"

definition authenticate :: "celcoin_tester \<Rightarrow> call_env \<Rightarrow> bool \<times> celcoin_tester" where
  "authenticate st env =
     (let url = BASE_URL (config st) @ ''/v5/token'';
          data = [(''client_id'', CLIENT_ID (config st)),
                  (''client_secret'', CLIENT_SECRET (config st)),
                  (''grant_type'', ''client_credentials'')];
          st1 = st \<lparr> wire := wire st @ [PostForm url data] \<rparr>
      in case outcome env of
           Raised msg \<Rightarrow> (False, st1)
         | Responded response \<Rightarrow>
             (let result = (new_test_result auth_name ''/v5/token'' ''POST'' (now env))
                             \<lparr> request_payload :=
                                 JObj [(''client_id'', JStr ''***''),
                                       (''grant_type'', JStr ''client_credentials'')],
                               response_status := Some (status_code response),
                               response_headers := Some (resp_headers response) \<rparr>
              in if status_code response = 200
                 then (case resp_json response of
                         Some (JObj token_data) \<Rightarrow>
                           (let result' = result
                                  \<lparr> response_body :=
                                      JObj [(''access_token'', JStr ''***''),
                                            (''expires_in'', dict_get token_data ''expires_in'')],
                                    success := True \<rparr>
                            in (True, st1 \<lparr> access_token := dict_get token_data ''access_token'',
                                           session := add_result (session st1) result' \<rparr>))
                       | _ \<Rightarrow> (False, st1))
                 else (case (if resp_text response \<noteq> [] then resp_json response
                             else Some (JObj [])) of
                         Some body \<Rightarrow>
                           (let result' = result
                                  \<lparr> response_body := body, success := False,
                                    error_message := Some (auth_error (status_code response)) \<rparr>
                            in (False, st1 \<lparr> session := add_result (session st1) result' \<rparr>))
                       | None \<Rightarrow> (False, st1))))"

section \<open>Domain operations\<close>

text \<open>Each operation builds its payload, calls the executor and returns the response
  body when the result is a success, \<open>None\<close> otherwise.\<close>

definition body_if_success :: "test_result \<Rightarrow> json" where
  "body_if_success r = (if success r then response_body r else JNull)"

definition test_pix_dict_lookup ::
  "celcoin_tester \<Rightarrow> string \<Rightarrow> string \<Rightarrow> call_env \<Rightarrow> json \<times> celcoin_tester" where
  "test_pix_dict_lookup st pix_key key_type env =
     (let url = BASE_URL (config st) @ ''/pix/v1/dict/v2/key'';
          payload = JObj [(''key'', JStr pix_key), (''keyType'', JStr key_type)];
          (result, st') = make_request st ''POST'' url payload JNull
                            (''DICT Lookup - '' @ key_type) env
      in (body_if_success result, st'))"

definition test_pix_payment ::
  "celcoin_tester \<Rightarrow> rat \<Rightarrow> string \<Rightarrow> string \<Rightarrow> string \<Rightarrow> string \<Rightarrow> call_env
     \<Rightarrow> json \<times> celcoin_tester" where
  "test_pix_payment st amount pix_key key_type client_code description env =
     (let url = BASE_URL (config st) @ ''/pix/v1/payment'';
          payload = JObj [(''amount'', JFloat amount),
                          (''receiver'', JObj [(''key'', JStr pix_key), (''keyType'', JStr key_type)]),
                          (''clientCode'', JStr client_code),
                          (''description'', JStr description),
                          (''urgency'', JStr ''HIGH''),
                          (''initiationType'', JStr ''MANUAL'')];
          (result, st') = make_request st ''POST'' url payload JNull
                            (''Pagamento PIX - R$ '' @ fmt_fixed 2 amount) env
      in (body_if_success result, st'))"

definition test_pix_status ::
  "celcoin_tester \<Rightarrow> string \<Rightarrow> call_env \<Rightarrow> json \<times> celcoin_tester" where
  "test_pix_status st transaction_id env =
     (let url = BASE_URL (config st) @ ''/pix/v1/payment/status'';
          params = JObj [(''transactionId'', JStr transaction_id)];
          (result, st') = make_request st ''GET'' url JNull params
                            (''Status PIX - '' @ take 8 transaction_id @ ''...'') env
      in (body_if_success result, st'))"

definition test_ted_transfer ::
  "celcoin_tester \<Rightarrow> rat \<Rightarrow> string \<Rightarrow> string \<Rightarrow> string \<Rightarrow> string \<Rightarrow> string \<Rightarrow> string
     \<Rightarrow> call_env \<Rightarrow> json \<times> celcoin_tester" where
  "test_ted_transfer st amount bank_code agency account recipient_name recipient_doc
       client_code env =
     (let url = BASE_URL (config st) @ ''/v5/transactions/banktransfer'';
          payload = JObj [(''amount'', JFloat amount),
                          (''clientCode'', JStr client_code),
                          (''bank'', JObj [(''bankCode'', JStr bank_code),
                                           (''agency'', JStr agency),
                                           (''account'', JStr account)]),
                          (''recipient'', JObj [(''name'', JStr recipient_name),
                                                (''document'', JStr recipient_doc)]),
                          (''purpose'', JStr ''01''),
                          (''description'', JStr ''Teste TED via API'')];
          (result, st') = make_request st ''POST'' url payload JNull
                            (''TED Transfer - R$ '' @ fmt_fixed 2 amount) env
      in (body_if_success result, st'))"

definition test_internal_transfer ::
  "celcoin_tester \<Rightarrow> rat \<Rightarrow> string \<Rightarrow> string \<Rightarrow> string \<Rightarrow> string \<Rightarrow> call_env
     \<Rightarrow> json \<times> celcoin_tester" where
  "test_internal_transfer st amount debit_account credit_account client_code description env =
     (let url = BASE_URL (config st)
                  @ ''/baas-wallet-transactions-webservice/v1/wallet/internal/transfer'';
          payload = JObj [(''amount'', JFloat amount),
                          (''clientRequestId'', JStr client_code),
                          (''debitParty'', JObj [(''account'', JStr debit_account)]),
                          (''creditParty'', JObj [(''account'', JStr credit_account)]),
                          (''description'', JStr description)];
          (result, st') = make_request st ''POST'' url payload JNull
                            (''Transfer'' @ [CHR 0xC3, CHR 0xAA] @ ''ncia Interna - R$ ''
                               @ fmt_fixed 2 amount) env
      in (body_if_success result, st'))"

section \<open>The pipeline\<close>

text \<open>What the outside world supplies to one run of the pipeline: the environment of
  each of the five calls, and the two \<open>uuid.uuid4().hex\<close> values.\<close>

record pipeline_env =
  auth_env :: call_env
  dict_env :: call_env
  uuid_pix :: string
  pix_env :: call_env
  status_env :: call_env
  uuid_ted :: string
  ted_env :: call_env

text \<open>\<open>run_pipeline_test\<close>: authentication first, and a return when it fails; then
  the four steps, whose return values are dropped.\<close>

definition run_pipeline_test :: "celcoin_tester \<Rightarrow> pipeline_env \<Rightarrow> celcoin_tester" where
  "run_pipeline_test st pe =
     (let (ok, st1) = authenticate st (auth_env pe)
      in if \<not> ok then st1
         else
           (let pix_key = ''test@example.com'';
                (r2, st2) = test_pix_dict_lookup st1 pix_key ''EMAIL'' (dict_env pe);
                client_code = ''TEST_'' @ take 8 (uuid_pix pe);
                (r3, st3) = test_pix_payment st2 (21 / 2) pix_key ''EMAIL'' client_code
                              ''Teste automatizado'' (pix_env pe);
                (r4, st4) = test_pix_status st3 ''123456789'' (status_env pe);
                ted_client_code = ''TED_'' @ take 8 (uuid_ted pe);
                (r5, st5) = test_ted_transfer st4 100 ''001'' ''1234'' ''12345-6''
                              (''Jo'' @ [CHR 0xC3, CHR 0xA3] @ ''o Silva'') ''12345678901''
                              ted_client_code (ted_env pe)
            in st5))"

section \<open>Sequences of operations\<close>

text \<open>One invocation of the executor with its arguments and its environment, and a run
  of several in order; the run returns the results the invocations returned.\<close>

record request =
  rq_method :: string
  rq_url :: string
  rq_payload :: json
  rq_params :: json
  rq_name :: string
  rq_env :: call_env

definition do_request :: "celcoin_tester \<Rightarrow> request \<Rightarrow> test_result \<times> celcoin_tester" where
  "do_request st rq =
     make_request st (rq_method rq) (rq_url rq) (rq_payload rq) (rq_params rq) (rq_name rq)
       (rq_env rq)"

fun run_requests :: "celcoin_tester \<Rightarrow> request list \<Rightarrow> test_result list \<times> celcoin_tester" where
  "run_requests st [] = ([], st)"
| "run_requests st (rq # rqs) =
     (let (r, st1) = do_request st rq; (rs, st2) = run_requests st1 rqs in (r # rs, st2))"

text \<open>Operations on a tester: executor invocations and authentications, in any order.\<close>

datatype tester_op = Request request | Authenticate call_env

fun run_op :: "celcoin_tester \<Rightarrow> tester_op \<Rightarrow> celcoin_tester" where
  "run_op st (Request rq) = snd (do_request st rq)"
| "run_op st (Authenticate env) = snd (authenticate st env)"

definition run_ops :: "celcoin_tester \<Rightarrow> tester_op list \<Rightarrow> celcoin_tester" where
  "run_ops st ops = foldl run_op st ops"

text \<open>Operations on a session.\<close>

datatype session_op = AddResult test_result | Finish datetime | GetDuration

fun session_step :: "test_session \<Rightarrow> session_op \<Rightarrow> test_session" where
  "session_step s (AddResult r) = add_result s r"
| "session_step s (Finish t) = finish s t"
| "session_step s GetDuration = s"

definition session_run :: "test_session \<Rightarrow> session_op list \<Rightarrow> test_session" where
  "session_run s ops = foldl session_step s ops"

section \<open>Report generator\<close>

text \<open>\<open>generate_report\<close> builds one markdown text from fixed wording and computed
  fields. The model keeps the computed fields, section by section in the order the source
  evaluates them, and the exceptions their computation raises: \<open>ZeroDivisionError\<close>
  from a division, \<open>TypeError\<close> from formatting \<open>None\<close> with \<open>:.3f\<close>. The fixed
  wording, \<open>strftime\<close> and \<open>json.dumps\<close> are left out: a date, a status and a JSON
  value stand for their rendering.\<close>

text \<open>\<open>a / n\<close> with \<open>n = len(...)\<close>.\<close>

definition py_div :: "rat \<Rightarrow> nat \<Rightarrow> py_exception + rat" where
  "py_div a n = (if n = 0 then Inl ZeroDivisionError else Inr (a / of_nat n))"

record summary_section =
  sum_session_id :: string
  sum_start :: datetime
  sum_end :: "datetime option"
  sum_duration :: string
  sum_total :: nat
  sum_successes :: nat
  sum_failures :: nat
  sum_rate :: string

definition summary_block :: "test_session \<Rightarrow> py_exception + summary_section" where
  "summary_block s =
     (let duration = get_duration s;
          total = length (results s);
          successes = length (filter success (results s));
          failures = length (filter (\<lambda>r. \<not> success r) (results s))
      in case py_div (of_nat (length (filter success (results s)))) (length (results s)) of
           Inl e \<Rightarrow> Inl e
         | Inr q \<Rightarrow>
             Inr \<lparr> sum_session_id = session_id s, sum_start = start_time s,
                   sum_end = end_time s, sum_duration = duration, sum_total = total,
                   sum_successes = successes, sum_failures = failures,
                   sum_rate = fmt_fixed 1 (q * 100) @ ''%'' \<rparr>)"

record detail_section =
  det_number :: nat
  det_success :: bool
  det_name :: string
  det_method :: string
  det_endpoint :: string
  det_timestamp :: datetime
  det_status :: "int option"
  det_time :: string
  det_payload :: "json option"
  det_body :: "json option"
  det_headers :: "(string \<times> string) list option"
  det_error :: "string option"

definition important_headers :: "(string \<times> string) list \<Rightarrow> (string \<times> string) list" where
  "important_headers hs =
     filter (\<lambda>(k, v). lower k \<in> set [''content-type'', ''x-ratelimit-remaining'', ''x-request-id''])
       hs"

text \<open>One pass of the loop over \<open>enumerate(session.results, 1)\<close>. A block is present
  when the value it shows is truthy.\<close>

definition detail_block :: "nat \<Rightarrow> test_result \<Rightarrow> py_exception + detail_section" where
  "detail_block i r =
     (case execution_time r of
        None \<Rightarrow> Inl TypeError
      | Some t \<Rightarrow>
          Inr \<lparr> det_number = i, det_success = success r, det_name = test_name r,
                det_method = http_method r, det_endpoint = endpoint r,
                det_timestamp = timestamp r, det_status = response_status r,
                det_time = fmt_fixed 3 t,
                det_payload = (if truthy (request_payload r) then Some (request_payload r)
                               else None),
                det_body = (if truthy (response_body r) then Some (response_body r) else None),
                det_headers =
                  (case response_headers r of
                     None \<Rightarrow> None
                   | Some hs \<Rightarrow>
                       if hs \<noteq> [] \<and> important_headers hs \<noteq> []
                       then Some (important_headers hs) else None),
                det_error =
                  (case error_message r of
                     None \<Rightarrow> None
                   | Some m \<Rightarrow> if m \<noteq> [] then Some m else None) \<rparr>)"

fun detail_blocks :: "nat \<Rightarrow> test_result list \<Rightarrow> py_exception + detail_section list" where
  "detail_blocks i [] = Inr []"
| "detail_blocks i (r # rs) =
     (case detail_block i r of
        Inl e \<Rightarrow> Inl e
      | Inr d \<Rightarrow>
          (case detail_blocks (Suc i) rs of
             Inl e \<Rightarrow> Inl e
           | Inr ds \<Rightarrow> Inr (d # ds)))"

text \<open>The aggregate timing block. \<open>r.execution_time or 0\<close> and
  \<open>r.execution_time or float('inf')\<close> replace a missing or zero time.\<close>

datatype ext_time = Finite rat | Infinity

fun ext_min :: "ext_time \<Rightarrow> ext_time \<Rightarrow> ext_time" where
  "ext_min Infinity y = y"
| "ext_min x Infinity = x"
| "ext_min (Finite a) (Finite b) = Finite (min a b)"

fun fmt_ext :: "nat \<Rightarrow> ext_time \<Rightarrow> string" where
  "fmt_ext d Infinity = ''inf''"
| "fmt_ext d (Finite x) = fmt_fixed d x"

definition or_zero :: "rat option \<Rightarrow> rat" where
  "or_zero t = (case t of None \<Rightarrow> 0 | Some x \<Rightarrow> if x \<noteq> 0 then x else 0)"

definition or_inf :: "rat option \<Rightarrow> ext_time" where
  "or_inf t = (case t of None \<Rightarrow> Infinity | Some x \<Rightarrow> if x \<noteq> 0 then Finite x else Infinity)"

record metrics_section =
  met_average :: string
  met_fastest :: string
  met_slowest :: string

definition metrics_block :: "test_result list \<Rightarrow> py_exception + metrics_section option" where
  "metrics_block rs =
     (if rs \<noteq> []
      then (case py_div (sum_list (map (\<lambda>r. or_zero (execution_time r)) rs)) (length rs) of
              Inl e \<Rightarrow> Inl e
            | Inr avg_time \<Rightarrow>
                (let fastest = foldr ext_min (map (\<lambda>r. or_inf (execution_time r)) rs) Infinity;
                     slowest = fold max (map (\<lambda>r. or_zero (execution_time r)) (tl rs))
                                 (or_zero (execution_time (hd rs)))
                 in Inr (Some \<lparr> met_average = fmt_fixed 3 avg_time,
                                 met_fastest = fmt_ext 3 fastest,
                                 met_slowest = fmt_fixed 3 slowest \<rparr>)))
      else Inr None)"

record report =
  rep_summary :: summary_section
  rep_details :: "detail_section list"
  rep_metrics :: "metrics_section option"
  rep_base_url :: string
  rep_generated :: datetime

text \<open>\<open>generate_report\<close>: the summary, the details, the aggregate timing and the
  footer, in this order; the first exception ends it. \<open>base_url\<close> is
  \<open>CelcoinConfig.BASE_URL\<close> and \<open>t\<close> the reading of \<open>datetime.now()\<close>.\<close>

definition generate_report :: "test_session \<Rightarrow> string \<Rightarrow> datetime \<Rightarrow> py_exception + report" where
  "generate_report s base_url t =
     (case summary_block s of
        Inl e \<Rightarrow> Inl e
      | Inr summary \<Rightarrow>
          (case detail_blocks 1 (results s) of
             Inl e \<Rightarrow> Inl e
           | Inr details \<Rightarrow>
               (case metrics_block (results s) of
                  Inl e \<Rightarrow> Inl e
                | Inr metrics \<Rightarrow>
                    Inr \<lparr> rep_summary = summary, rep_details = details,
                          rep_metrics = metrics, rep_base_url = base_url,
                          rep_generated = t \<rparr>)))"

section \<open>Vocabulary of the properties\<close>

text \<open>The two header dictionaries the executor can send.\<close>

definition bare_headers :: headers where
  "bare_headers = [(''Content-Type'', Text ''application/json'')]"

definition sent_headers :: "celcoin_tester \<Rightarrow> headers" where
  "sent_headers st = (if truthy (access_token st) then get_headers st else bare_headers)"

text \<open>The environments in which \<open>authenticate\<close> returns \<open>True\<close>: a response with
  status 200 whose body decodes to a \<open>dict\<close> (lemma \<open>authenticate_returns\<close>).\<close>

definition auth_succeeds :: "call_env \<Rightarrow> bool" where
  "auth_succeeds env =
     (case outcome env of
        Raised m \<Rightarrow> False
      | Responded r \<Rightarrow>
          status_code r = 200 \<and> (case resp_json r of Some (JObj td) \<Rightarrow> True | _ \<Rightarrow> False))"

fun successful_auth :: "tester_op \<Rightarrow> bool" where
  "successful_auth (Request rq) = False"
| "successful_auth (Authenticate env) = auth_succeeds env"

text \<open>The calls on the wire that the executor made (the token request is the only
  form-encoded one).\<close>

fun executor_call :: "http_call \<Rightarrow> bool" where
  "executor_call (PostForm u d) = False"
| "executor_call c = True"

text \<open>The times of the \<open>finish\<close> calls in a sequence of session operations.\<close>

fun finish_times :: "session_op list \<Rightarrow> datetime list" where
  "finish_times [] = []"
| "finish_times (Finish t # ops) = t # finish_times ops"
| "finish_times (x # ops) = finish_times ops"

section \<open>Example inputs\<close>

definition example_config :: celcoin_config where
  "example_config =
     \<lparr> BASE_URL = ''https://sandbox.openfinance.celcoin.dev'', CLIENT_ID = ''client'',
       CLIENT_SECRET = ''secret'' \<rparr>"

definition example_tester :: celcoin_tester where
  "example_tester = new_celcoin_tester example_config ''1b4e28ba-2fa1-11d2-883f-0016d3cca427'' 0"

definition example_response :: "int \<Rightarrow> string \<Rightarrow> json option \<Rightarrow> http_response" where
  "example_response status text body =
     \<lparr> status_code = status, resp_headers = [(''Content-Type'', ''application/json'')],
       resp_text = text, resp_json = body \<rparr>"

definition example_env :: "http_outcome \<Rightarrow> call_env" where
  "example_env oc = \<lparr> now = 1000000, t_start = 10, t_end = 21 / 2, outcome = oc \<rparr>"

definition example_request :: "string \<Rightarrow> http_outcome \<Rightarrow> request" where
  "example_request meth oc =
     \<lparr> rq_method = meth, rq_url = ''https://sandbox.openfinance.celcoin.dev/pix/v1/payment'',
       rq_payload = JObj [(''amount'', JInt 1)], rq_params = JNull, rq_name = ''example'',
       rq_env = example_env oc \<rparr>"

definition example_pipeline_env :: "http_outcome \<Rightarrow> http_outcome \<Rightarrow> pipeline_env" where
  "example_pipeline_env auth_oc step_oc =
     \<lparr> auth_env = example_env auth_oc, dict_env = example_env step_oc,
       uuid_pix = ''0123456789abcdef0123456789abcdef'', pix_env = example_env step_oc,
       status_env = example_env step_oc, uuid_ted = ''fedcba9876543210fedcba9876543210'',
       ted_env = example_env step_oc \<rparr>"

text \<open>A token response body \<open>{"access_token": tok, "expires_in": 3600}\<close>, as text and
  decoded.\<close>

definition quoted :: "string \<Rightarrow> string" where
  "quoted s = [CHR 0x22] @ s @ [CHR 0x22]"

definition example_token_response :: "string \<Rightarrow> http_response" where
  "example_token_response tok =
     example_response 200
       (''{'' @ quoted ''access_token'' @ '': '' @ quoted tok @ '', '' @ quoted ''expires_in''
          @ '': 3600}'')
       (Some (JObj [(''access_token'', JStr tok), (''expires_in'', JInt 3600)]))"


section \<open>Facts about the executor\<close>

lemma select_call_headers:
  "select_call meth url hdrs payload params = Inr c \<Longrightarrow> call_headers c = Some hdrs"
  by (auto simp: select_call_def split: if_splits)

lemma make_request_session:
  "session (snd (make_request st meth url payload params name env)) =
   add_result (session st) (fst (make_request st meth url payload params name env))"
  by (simp add: make_request_def Let_def split: sum.splits http_outcome.splits prod.splits)

lemma make_request_results:
  "results (session (snd (make_request st meth url payload params name env))) =
   results (session st) @ [fst (make_request st meth url payload params name env)]"
  by (simp add: make_request_session add_result_def)

lemma make_request_token:
  "access_token (snd (make_request st meth url payload params name env)) = access_token st"
  by (simp add: make_request_def Let_def split: sum.splits http_outcome.splits prod.splits)

lemma make_request_name:
  "test_name (fst (make_request st meth url payload params name env)) = name"
  by (simp add: make_request_def Let_def new_test_result_def split: sum.splits http_outcome.splits prod.splits)

lemma make_request_wire:
  "wire (snd (make_request st meth url payload params name env)) =
   wire st @ (case select_call meth url (sent_headers st) payload params of
                Inl m \<Rightarrow> [] | Inr c \<Rightarrow> [c])"
  by (simp add: make_request_def Let_def sent_headers_def bare_headers_def split: sum.splits http_outcome.splits prod.splits)

lemma make_request_responded:
  assumes "upper meth \<in> {''POST'', ''GET'', ''PUT'', ''DELETE''}"
    and "outcome env = Responded response"
  shows "fst (make_request st meth url payload params name env) =
     (let ok = (status_code response \<in> {200, 201, 202});
          filled = (new_test_result name (str_remove (BASE_URL (config st)) url) meth (now env))
            \<lparr> request_payload := payload,
              execution_time := Some (t_end env - t_start env),
              response_status := Some (status_code response),
              response_headers := Some (resp_headers response),
              response_body := (case resp_json response of Some j \<Rightarrow> j
                                | None \<Rightarrow> JObj [(''raw_response'', JStr (resp_text response))]),
              success := ok \<rparr>
      in if \<not> ok then filled \<lparr> error_message :=
                 Some (''HTTP '' @ str_int (status_code response) @ '': '' @ resp_text response) \<rparr>
         else filled)"
  using assms
  by (auto simp: make_request_def Let_def select_call_def split: sum.splits http_outcome.splits prod.splits)

section \<open>Facts about authentication and sequences of operations\<close>

lemma authenticate_returns: "fst (authenticate st env) = auth_succeeds env"
  by (simp add: authenticate_def auth_succeeds_def Let_def
      split: http_outcome.splits option.splits json.splits)

lemma authenticate_wire:
  "wire (snd (authenticate st env)) =
   wire st @ [PostForm (BASE_URL (config st) @ ''/v5/token'')
                [(''client_id'', CLIENT_ID (config st)),
                 (''client_secret'', CLIENT_SECRET (config st)),
                 (''grant_type'', ''client_credentials'')]]"
  by (simp add: authenticate_def Let_def
      split: http_outcome.splits option.splits json.splits)

lemma authenticate_token_unchanged:
  "\<not> auth_succeeds env \<Longrightarrow> access_token (snd (authenticate st env)) = access_token st"
  by (auto simp add: authenticate_def auth_succeeds_def Let_def
      split: http_outcome.splits option.splits json.splits)

lemma authenticate_raised:
  "outcome env = Raised m \<Longrightarrow> session (snd (authenticate st env)) = session st"
  by (simp add: authenticate_def Let_def)

lemma authenticate_rejected:
  assumes "outcome env = Responded r" and "status_code r \<noteq> 200"
    and "resp_text r = [] \<or> resp_json r \<noteq> None"
  shows "\<exists>res. results (session (snd (authenticate st env))) = results (session st) @ [res]
           \<and> \<not> success res \<and> response_status res = Some (status_code r)
           \<and> error_message res = Some (auth_error (status_code r))"
  using assms
  by (auto simp add: authenticate_def Let_def add_result_def new_test_result_def
      split: http_outcome.splits option.splits json.splits)

lemma authenticate_accepted:
  assumes "outcome env = Responded r" and "status_code r = 200"
    and "resp_json r = Some (JObj td)"
  shows "fst (authenticate st env)"
    and "access_token (snd (authenticate st env)) = dict_get td ''access_token''"
    and "results (session (snd (authenticate st env))) = results (session st) @
           [(new_test_result auth_name ''/v5/token'' ''POST'' (now env))
              \<lparr> request_payload := JObj [(''client_id'', JStr ''***''),
                                         (''grant_type'', JStr ''client_credentials'')],
                response_status := Some 200,
                response_headers := Some (resp_headers r),
                response_body := JObj [(''access_token'', JStr ''***''),
                                       (''expires_in'', dict_get td ''expires_in'')],
                success := True \<rparr>]"
  using assms
  by (auto simp add: authenticate_def Let_def add_result_def
      split: http_outcome.splits option.splits json.splits)

lemma run_op_token:
  "\<not> successful_auth op \<Longrightarrow> access_token (run_op st op) = access_token st"
  by (cases op) (simp_all add: do_request_def make_request_token authenticate_token_unchanged)

lemma run_op_wire:
  "\<exists>cs. wire (run_op st op) = wire st @ cs \<and>
     (\<forall>c \<in> set cs. executor_call c \<longrightarrow> call_headers c = Some (sent_headers st))"
proof (cases op)
  case (Request rq)
  show ?thesis
    by (cases "select_call (rq_method rq) (rq_url rq) (sent_headers st) (rq_payload rq) (rq_params rq)")
       (simp_all add: Request do_request_def make_request_wire select_call_headers)
next
  case (Authenticate env)
  then show ?thesis by (simp add: authenticate_wire)
qed

lemma sent_headers_cong: "access_token st' = access_token st \<Longrightarrow> sent_headers st' = sent_headers st"
  by (simp add: sent_headers_def get_headers_def)

lemma run_ops_wire:
  "\<forall>op \<in> set ops. \<not> successful_auth op \<Longrightarrow>
   access_token (run_ops st ops) = access_token st \<and>
   (\<exists>cs. wire (run_ops st ops) = wire st @ cs \<and>
      (\<forall>c \<in> set cs. executor_call c \<longrightarrow> call_headers c = Some (sent_headers st)))"
proof (induction ops arbitrary: st)
  case Nil
  then show ?case by (simp add: run_ops_def)
next
  case (Cons op ops)
  let ?st1 = "run_op st op"
  have tok: "access_token ?st1 = access_token st"
    using Cons.prems by (simp add: run_op_token)
  obtain cs1 where cs1: "wire ?st1 = wire st @ cs1"
    "\<forall>c \<in> set cs1. executor_call c \<longrightarrow> call_headers c = Some (sent_headers st)"
    using run_op_wire by blast
  from Cons.IH [of ?st1] Cons.prems
  obtain cs2 where cs2: "access_token (run_ops ?st1 ops) = access_token ?st1"
    "wire (run_ops ?st1 ops) = wire ?st1 @ cs2"
    "\<forall>c \<in> set cs2. executor_call c \<longrightarrow> call_headers c = Some (sent_headers ?st1)"
    by auto
  have eq: "run_ops st (op # ops) = run_ops ?st1 ops"
    by (simp add: run_ops_def)
  have "wire (run_ops st (op # ops)) = wire st @ (cs1 @ cs2)"
    by (simp add: eq cs1 cs2)
  moreover have "\<forall>c \<in> set (cs1 @ cs2). executor_call c \<longrightarrow> call_headers c = Some (sent_headers st)"
    using cs1(2) cs2(3) sent_headers_cong [OF tok] by auto
  ultimately show ?case
    using eq cs2(1) tok by metis
qed

lemma run_ops_new_calls:
  assumes "\<forall>op \<in> set ops. \<not> successful_auth op"
    and "c \<in> set (drop (length (wire st)) (wire (run_ops st ops)))" and "executor_call c"
  shows "call_headers c = Some (sent_headers st)"
proof -
  from run_ops_wire [OF assms(1), of st]
  obtain cs where cs: "wire (run_ops st ops) = wire st @ cs"
    "\<forall>c \<in> set cs. executor_call c \<longrightarrow> call_headers c = Some (sent_headers st)"
    by blast
  from assms(2) have "c \<in> set cs" by (simp add: cs(1))
  with cs(2) assms(3) show ?thesis by blast
qed

section \<open>Facts about the session and the report\<close>

lemma session_run_Cons: "session_run s (op # ops) = session_run (session_step s op) ops"
  by (simp add: session_run_def)

lemma session_run_end_time:
  "end_time (session_run s ops) =
     (if finish_times ops = [] then end_time s else Some (last (finish_times ops)))"
proof (induction ops arbitrary: s)
  case Nil
  then show ?case by (simp add: session_run_def)
next
  case (Cons op ops)
  show ?case
    by (cases op) (simp_all add: session_run_Cons Cons.IH add_result_def finish_def)
qed

lemma summary_block_empty: "results s = [] \<Longrightarrow> summary_block s = Inl ZeroDivisionError"
  by (simp add: summary_block_def py_div_def)

lemma summary_block_nonempty: "results s \<noteq> [] \<Longrightarrow> \<exists>x. summary_block s = Inr x"
  by (simp add: summary_block_def py_div_def Let_def)

lemma detail_blocks_error: "detail_blocks i rs = Inl e \<Longrightarrow> e = TypeError"
  by (induction rs arbitrary: i) (auto simp: detail_block_def split: sum.splits option.splits)

lemma metrics_block_total: "\<exists>m. metrics_block rs = Inr m"
  by (simp add: metrics_block_def py_div_def Let_def)

lemma metrics_block_none: "metrics_block rs = Inr None \<longleftrightarrow> rs = []"
  by (simp add: metrics_block_def py_div_def Let_def)

lemma generate_report_zero_div:
  "generate_report s b t = Inl ZeroDivisionError \<longleftrightarrow> results s = []"
proof
  assume "results s = []"
  then show "generate_report s b t = Inl ZeroDivisionError"
    by (simp add: generate_report_def summary_block_empty)
next
  assume a: "generate_report s b t = Inl ZeroDivisionError"
  show "results s = []"
  proof (rule ccontr)
    assume ne: "results s \<noteq> []"
    then obtain x where x: "summary_block s = Inr x" using summary_block_nonempty by blast
    obtain m where m: "metrics_block (results s) = Inr m" using metrics_block_total by blast
    show False
    proof (cases "detail_blocks 1 (results s)")
      case (Inl e)
      then have "e = TypeError" by (rule detail_blocks_error)
      with a x Inl show False by (simp add: generate_report_def)
    next
      case (Inr ds)
      with a x m show False by (simp add: generate_report_def)
    qed
  qed
qed

section \<open>Facts about the pipeline\<close>

lemma upper_POST: "upper ''POST'' = ''POST''"
  by (simp add: upper_def upper_char_def)

lemma upper_GET: "upper ''GET'' = ''GET''"
  by (simp add: upper_def upper_char_def)

lemma fmt_pix_amount: "fmt_fixed 2 (21 / 2) = ''10.50''"
  by code_simp

lemma fmt_ted_amount: "fmt_fixed 2 100 = ''100.00''"
  by code_simp

lemma make_request_wire_length:
  "upper meth \<in> {''POST'', ''GET'', ''PUT'', ''DELETE''} \<Longrightarrow>
   length (wire (snd (make_request st meth url payload params name env))) = Suc (length (wire st))"
  by (auto simp: make_request_wire select_call_def)

lemma test_pix_dict_lookup_state:
  "snd (test_pix_dict_lookup st k kt env) =
   snd (make_request st ''POST'' (BASE_URL (config st) @ ''/pix/v1/dict/v2/key'')
          (JObj [(''key'', JStr k), (''keyType'', JStr kt)]) JNull (''DICT Lookup - '' @ kt) env)"
  by (simp add: test_pix_dict_lookup_def Let_def split: prod.splits)

lemma test_pix_payment_state:
  "snd (test_pix_payment st a k kt cc d env) =
   snd (make_request st ''POST'' (BASE_URL (config st) @ ''/pix/v1/payment'')
          (JObj [(''amount'', JFloat a),
                 (''receiver'', JObj [(''key'', JStr k), (''keyType'', JStr kt)]),
                 (''clientCode'', JStr cc), (''description'', JStr d),
                 (''urgency'', JStr ''HIGH''), (''initiationType'', JStr ''MANUAL'')])
          JNull (''Pagamento PIX - R$ '' @ fmt_fixed 2 a) env)"
  by (simp add: test_pix_payment_def Let_def split: prod.splits)

lemma test_pix_status_state:
  "snd (test_pix_status st tid env) =
   snd (make_request st ''GET'' (BASE_URL (config st) @ ''/pix/v1/payment/status'') JNull
          (JObj [(''transactionId'', JStr tid)]) (''Status PIX - '' @ take 8 tid @ ''...'') env)"
  by (simp add: test_pix_status_def Let_def split: prod.splits)

lemma test_ted_transfer_state:
  "snd (test_ted_transfer st a b ag ac rn rd cc env) =
   snd (make_request st ''POST'' (BASE_URL (config st) @ ''/v5/transactions/banktransfer'')
          (JObj [(''amount'', JFloat a), (''clientCode'', JStr cc),
                 (''bank'', JObj [(''bankCode'', JStr b), (''agency'', JStr ag),
                                  (''account'', JStr ac)]),
                 (''recipient'', JObj [(''name'', JStr rn), (''document'', JStr rd)]),
                 (''purpose'', JStr ''01''), (''description'', JStr ''Teste TED via API'')])
          JNull (''TED Transfer - R$ '' @ fmt_fixed 2 a) env)"
  by (simp add: test_ted_transfer_def Let_def split: prod.splits)

lemma make_request_named:
  "\<exists>r. results (session (snd (make_request st meth url payload params name env))) =
          results (session st) @ [r] \<and> test_name r = name"
  using make_request_results make_request_name by blast

lemma make_request_POST_wire:
  "length (wire (snd (make_request st ''POST'' url payload params name env))) = Suc (length (wire st))"
  by (rule make_request_wire_length) (simp add: upper_POST)

lemma make_request_GET_wire:
  "length (wire (snd (make_request st ''GET'' url payload params name env))) = Suc (length (wire st))"
  by (rule make_request_wire_length) (simp add: upper_GET)

lemma run_pipeline_test_failed:
  "\<not> fst (authenticate st (auth_env pe)) \<Longrightarrow>
   run_pipeline_test st pe = snd (authenticate st (auth_env pe))"
  by (simp add: run_pipeline_test_def case_prod_beta)

lemma run_pipeline_test_passed:
  "fst (authenticate st (auth_env pe)) \<Longrightarrow>
   run_pipeline_test st pe =
     snd (test_ted_transfer
       (snd (test_pix_status
         (snd (test_pix_payment
           (snd (test_pix_dict_lookup (snd (authenticate st (auth_env pe)))
                  ''test@example.com'' ''EMAIL'' (dict_env pe)))
           (21 / 2) ''test@example.com'' ''EMAIL'' (''TEST_'' @ take 8 (uuid_pix pe))
           ''Teste automatizado'' (pix_env pe)))
         ''123456789'' (status_env pe)))
       100 ''001'' ''1234'' ''12345-6'' (''Jo'' @ [CHR 0xC3, CHR 0xA3] @ ''o Silva'')
       ''12345678901'' (''TED_'' @ take 8 (uuid_ted pe)) (ted_env pe))"
  by (simp add: run_pipeline_test_def Let_def case_prod_beta)

lemma pipeline_steps_results:
  assumes ok: "fst (authenticate st (auth_env pe))"
  shows "\<exists>r2 r3 r4 r5. results (session (run_pipeline_test st pe)) =
       results (session (snd (authenticate st (auth_env pe)))) @ [r2, r3, r4, r5]
     \<and> test_name r2 = ''DICT Lookup - EMAIL'' \<and> test_name r3 = ''Pagamento PIX - R$ 10.50''
     \<and> test_name r4 = ''Status PIX - 12345678...'' \<and> test_name r5 = ''TED Transfer - R$ 100.00''"
proof -
  let ?s1 = "snd (authenticate st (auth_env pe))"
  let ?s2 = "snd (test_pix_dict_lookup ?s1 ''test@example.com'' ''EMAIL'' (dict_env pe))"
  let ?s3 = "snd (test_pix_payment ?s2 (21 / 2) ''test@example.com'' ''EMAIL''
                (''TEST_'' @ take 8 (uuid_pix pe)) ''Teste automatizado'' (pix_env pe))"
  let ?s4 = "snd (test_pix_status ?s3 ''123456789'' (status_env pe))"
  let ?s5 = "snd (test_ted_transfer ?s4 100 ''001'' ''1234'' ''12345-6''
                (''Jo'' @ [CHR 0xC3, CHR 0xA3] @ ''o Silva'') ''12345678901''
                (''TED_'' @ take 8 (uuid_ted pe)) (ted_env pe))"
  have run: "run_pipeline_test st pe = ?s5"
    using ok by (rule run_pipeline_test_passed)
  obtain r2 where r2: "results (session ?s2) = results (session ?s1) @ [r2]"
    "test_name r2 = ''DICT Lookup - '' @ ''EMAIL''"
    unfolding test_pix_dict_lookup_state using make_request_named by blast
  obtain r3 where r3: "results (session ?s3) = results (session ?s2) @ [r3]"
    "test_name r3 = ''Pagamento PIX - R$ '' @ fmt_fixed 2 (21 / 2)"
    unfolding test_pix_payment_state [of ?s2] using make_request_named by blast
  obtain r4 where r4: "results (session ?s4) = results (session ?s3) @ [r4]"
    "test_name r4 = ''Status PIX - '' @ take 8 ''123456789'' @ ''...''"
    unfolding test_pix_status_state [of ?s3] using make_request_named by blast
  obtain r5 where r5: "results (session ?s5) = results (session ?s4) @ [r5]"
    "test_name r5 = ''TED Transfer - R$ '' @ fmt_fixed 2 100"
    unfolding test_ted_transfer_state [of ?s4] using make_request_named by blast
  have "results (session (run_pipeline_test st pe)) = results (session ?s1) @ [r2, r3, r4, r5]"
    using r5(1) r4(1) r3(1) r2(1) by (simp add: run)
  moreover have "test_name r2 = ''DICT Lookup - EMAIL''" using r2(2) by simp
  moreover have "test_name r3 = ''Pagamento PIX - R$ 10.50''"
    using r3(2) by (simp add: fmt_pix_amount)
  moreover have "test_name r4 = ''Status PIX - 12345678...''" using r4(2) by simp
  moreover have "test_name r5 = ''TED Transfer - R$ 100.00''"
    using r5(2) by (simp add: fmt_ted_amount)
  ultimately show ?thesis by blast
qed

lemma pipeline_steps_wire:
  assumes ok: "fst (authenticate st (auth_env pe))"
  shows "length (wire (run_pipeline_test st pe)) = length (wire st) + 5"
  by (simp only: run_pipeline_test_passed [OF ok] test_ted_transfer_state test_pix_status_state
      test_pix_payment_state test_pix_dict_lookup_state make_request_POST_wire
      make_request_GET_wire authenticate_wire length_append list.size)

lemma contains_auth_error: "contains (auth_error status) (str_int status)"
  unfolding contains_def auth_error_def by (metis append.assoc sublist_appendI append_Nil2)

lemma authenticate_success_result:
  assumes "fst (authenticate st env)"
  shows "\<exists>a. results (session (snd (authenticate st env))) = results (session st) @ [a]
           \<and> success a \<and> test_name a = auth_name"
proof -
  from assms have "auth_succeeds env" by (simp add: authenticate_returns)
  then obtain r td where "outcome env = Responded r" "status_code r = 200"
    "resp_json r = Some (JObj td)"
    by (auto simp: auth_succeeds_def split: http_outcome.splits option.splits json.splits)
  from authenticate_accepted(3) [OF this, of st] show ?thesis
    by (simp add: new_test_result_def)
qed

section \<open>Facts about the example inputs\<close>

lemma example_token_outcome:
  "outcome (example_env (Responded (example_token_response tok))) =
     Responded (example_token_response tok)"
  "status_code (example_token_response tok) = 200"
  "resp_json (example_token_response tok) =
     Some (JObj [(''access_token'', JStr tok), (''expires_in'', JInt 3600)])"
  "map_of [(''access_token'', JStr tok), (''expires_in'', JInt 3600)] ''access_token'' =
     Some (JStr tok)"
  by (simp_all add: example_env_def example_token_response_def example_response_def)

lemma example_tester_fields:
  "wire example_tester = []" "results (session example_tester) = []"
  "access_token example_tester = JNull" "config example_tester = example_config"
  by (simp_all add: example_tester_def new_celcoin_tester_def new_test_session_def)

lemma example_pipeline_auth:
  "auth_env (example_pipeline_env a s) = example_env a"
  "outcome (example_env a) = a"
  by (simp_all add: example_pipeline_env_def example_env_def)

lemma example_request_wire:
  "wire (run_ops st [Request (example_request ''POST'' oc)]) =
     wire st @ [Post ''https://sandbox.openfinance.celcoin.dev/pix/v1/payment''
                  (sent_headers st) (JObj [(''amount'', JInt 1)])]"
  by (simp add: run_ops_def do_request_def make_request_wire example_request_def select_call_def
      upper_POST)

lemma example_token_request_wire:
  "wire (snd (authenticate example_tester env)) =
     [PostForm (BASE_URL example_config @ ''/v5/token'')
        [(''client_id'', CLIENT_ID example_config),
         (''client_secret'', CLIENT_SECRET example_config),
         (''grant_type'', ''client_credentials'')]]"
  by (simp add: authenticate_wire example_tester_fields)

lemma run_requests_Cons:
  "run_requests st (rq # rqs) =
     (fst (do_request st rq) # fst (run_requests (snd (do_request st rq)) rqs),
      snd (run_requests (snd (do_request st rq)) rqs))"
  by (simp add: case_prod_beta)

section \<open>The claims\<close>

subsection \<open>Success classification\<close>

text \<open>C1: when the executor makes its call (the method is one of the four it supports)
  and a response arrives, the result's success flag is true exactly when the status code
  is 200, 201 or 202; with any other status the result is marked failed. The result also
  records that status.\<close>

theorem make_request_success_iff_status:
  assumes "upper meth \<in> {''POST'', ''GET'', ''PUT'', ''DELETE''}"
    and "outcome env = Responded response"
  shows "success (fst (make_request st meth url payload params name env)) =
           (status_code response \<in> {200, 201, 202})
       \<and> response_status (fst (make_request st meth url payload params name env)) =
           Some (status_code response)"
  by (simp add: make_request_responded [OF assms] Let_def new_test_result_def)

theorem make_request_success_iff_status_witness:
  "success (fst (make_request example_tester ''POST''
       ''https://sandbox.openfinance.celcoin.dev/pix/v1/payment'' JNull JNull ''example''
       (example_env (Responded (example_response 201 ''{}'' (Some (JObj [])))))))
   \<and> \<not> success (fst (make_request example_tester ''GET''
       ''https://sandbox.openfinance.celcoin.dev/pix/v1/payment'' JNull JNull ''example''
       (example_env (Responded (example_response 404 ''not found'' None)))))"
proof -
  have p: "upper ''POST'' \<in> {''POST'', ''GET'', ''PUT'', ''DELETE''}"
    and g: "upper ''GET'' \<in> {''POST'', ''GET'', ''PUT'', ''DELETE''}"
    by (simp_all add: upper_POST upper_GET)
  have o1: "outcome (example_env (Responded (example_response 201 ''{}'' (Some (JObj []))))) =
      Responded (example_response 201 ''{}'' (Some (JObj [])))"
    and o2: "outcome (example_env (Responded (example_response 404 ''not found'' None))) =
      Responded (example_response 404 ''not found'' None)"
    by (simp_all add: example_env_def)
  show ?thesis
    using make_request_success_iff_status [OF p o1] make_request_success_iff_status [OF g o2]
    by (simp add: example_response_def)
qed

subsection \<open>One result per invocation, in order\<close>

text \<open>C2: every invocation of the executor appends exactly the result it returns to
  the end of the session's list, whatever the outcome of the call (a success status,
  another status, a raise of the library, an unsupported method). So after a sequence of
  invocations the list is the former list followed by the returned results in invocation
  order: one per invocation, named as the invocations were.\<close>

theorem run_requests_appends_in_order:
  "results (session (snd (make_request st meth url payload params name env))) =
     results (session st) @ [fst (make_request st meth url payload params name env)]
   \<and> results (session (snd (run_requests st rqs))) = results (session st) @ fst (run_requests st rqs)
   \<and> length (fst (run_requests st rqs)) = length rqs
   \<and> map test_name (fst (run_requests st rqs)) = map rq_name rqs
   \<and> length (results (session (snd (run_requests st rqs)))) =
       length (results (session st)) + length rqs"
proof -
  have a: "results (session (snd (run_requests st rqs))) =
      results (session st) @ fst (run_requests st rqs)
      \<and> map test_name (fst (run_requests st rqs)) = map rq_name rqs"
  proof (induction rqs arbitrary: st)
    case Nil
    show ?case by simp
  next
    case (Cons rq rqs)
    have "results (session (snd (do_request st rq))) =
        results (session st) @ [fst (do_request st rq)]"
      and "test_name (fst (do_request st rq)) = rq_name rq"
      by (simp_all add: do_request_def make_request_results make_request_name)
    with Cons.IH [of "snd (do_request st rq)"] show ?case
      by (simp only: run_requests_Cons fst_conv snd_conv) simp
  qed
  then have "length (fst (run_requests st rqs)) = length rqs"
    by (metis length_map)
  with a show ?thesis
    by (simp add: make_request_results)
qed

theorem run_requests_appends_in_order_witness:
  "map test_name (results (session (snd (run_requests example_tester
      [example_request ''POST'' (Responded (example_response 200 ''{}'' (Some (JObj [])))),
       example_request ''GET'' (Responded (example_response 500 ''oops'' None)),
       example_request ''DELETE'' (Raised ''Connection timed out'')])))) =
   [''example'', ''example'', ''example'']"
proof -
  have "results (session example_tester) = []"
    by (simp add: example_tester_def new_celcoin_tester_def new_test_session_def)
  then show ?thesis
    using run_requests_appends_in_order [of example_tester "''POST''" "[]" JNull JNull "[]"
        "example_env (Raised [])"
        "[example_request ''POST'' (Responded (example_response 200 ''{}'' (Some (JObj [])))),
          example_request ''GET'' (Responded (example_response 500 ''oops'' None)),
          example_request ''DELETE'' (Raised ''Connection timed out'')]"]
    by (simp add: example_request_def)
qed

subsection \<open>Failed authentication\<close>

text \<open>C3 (amended): when the token request raises in the library or is answered with a
  status other than 200, \<open>authenticate\<close> returns failure and the stored token is
  unchanged (unset if it was unset). After a raise the session is unchanged: no result is
  recorded. After a status other than 200 whose body is empty or decodes as JSON, exactly
  one failed result is appended, with that status and the message that ends in the
  status.\<close>

theorem authenticate_failure:
  assumes "outcome env = Raised m \<or> (outcome env = Responded r \<and> status_code r \<noteq> 200)"
  shows "\<not> fst (authenticate st env)
       \<and> access_token (snd (authenticate st env)) = access_token st
       \<and> (outcome env = Raised m \<longrightarrow> session (snd (authenticate st env)) = session st)
       \<and> (outcome env = Responded r \<and> (resp_text r = [] \<or> resp_json r \<noteq> None) \<longrightarrow>
            (\<exists>res. results (session (snd (authenticate st env))) = results (session st) @ [res]
               \<and> \<not> success res \<and> response_status res = Some (status_code r)
               \<and> error_message res = Some (auth_error (status_code r))))"
proof -
  have fails: "\<not> auth_succeeds env"
    using assms by (auto simp: auth_succeeds_def)
  have "\<not> fst (authenticate st env)"
    using fails by (simp add: authenticate_returns)
  moreover have "access_token (snd (authenticate st env)) = access_token st"
    using fails by (rule authenticate_token_unchanged)
  moreover have "outcome env = Raised m \<longrightarrow> session (snd (authenticate st env)) = session st"
    by (simp add: authenticate_raised)
  moreover have "outcome env = Responded r \<and> (resp_text r = [] \<or> resp_json r \<noteq> None) \<longrightarrow>
            (\<exists>res. results (session (snd (authenticate st env))) = results (session st) @ [res]
               \<and> \<not> success res \<and> response_status res = Some (status_code r)
               \<and> error_message res = Some (auth_error (status_code r)))"
    using assms authenticate_rejected [of env r st] by auto
  ultimately show ?thesis by blast
qed

theorem authenticate_failure_witness:
  "\<not> fst (authenticate example_tester (example_env (Raised ''Connection timed out'')))
   \<and> session (snd (authenticate example_tester (example_env (Raised ''Connection timed out'')))) =
       session example_tester
   \<and> \<not> fst (authenticate example_tester (example_env (Responded (example_response 401 [] None))))
   \<and> length (results (session (snd (authenticate example_tester
        (example_env (Responded (example_response 401 [] None))))))) = 1"
proof -
  have o1: "outcome (example_env (Raised ''Connection timed out'')) = Raised ''Connection timed out''"
    and o2: "outcome (example_env (Responded (example_response 401 [] None))) =
        Responded (example_response 401 [] None)"
    and s: "status_code (example_response 401 [] None) \<noteq> 200"
    and t: "resp_text (example_response 401 [] None) = []"
    and e: "results (session example_tester) = []"
    by (simp_all add: example_env_def example_response_def example_tester_def
        new_celcoin_tester_def new_test_session_def)
  from o1 have h1: "outcome (example_env (Raised ''Connection timed out'')) = Raised ''Connection timed out''
      \<or> (outcome (example_env (Raised ''Connection timed out'')) = Responded (example_response 401 [] None)
          \<and> status_code (example_response 401 [] None) \<noteq> 200)"
    by simp
  from o2 s have h2: "outcome (example_env (Responded (example_response 401 [] None))) = Raised []
      \<or> (outcome (example_env (Responded (example_response 401 [] None))) =
            Responded (example_response 401 [] None)
          \<and> status_code (example_response 401 [] None) \<noteq> 200)"
    by simp
  show ?thesis
    using authenticate_failure [OF h1, of example_tester] authenticate_failure [OF h2, of example_tester]
      o1 o2 t e
    by auto
qed

text \<open>The claim as stated fails on the raise: the call returns failure and the session
  of a fresh tester still holds no result.\<close>

theorem authenticate_exception_counterexample:
  "\<not> fst (authenticate example_tester (example_env (Raised ''Connection timed out'')))
   \<and> results (session (snd (authenticate example_tester
        (example_env (Raised ''Connection timed out''))))) = []"
  by (simp add: authenticate_def example_env_def example_tester_def new_celcoin_tester_def
      new_test_session_def)

subsection \<open>The end time of a session\<close>

text \<open>C4 (amended): \<open>add_result\<close> and \<open>get_duration\<close> never change the end
  time, and every \<open>finish\<close> sets it to the time of that call, a repeated
  \<open>finish\<close> included. So after any sequence of operations the end time is the time
  of the last \<open>finish\<close> in it, and the former end time when there is none.\<close>

theorem session_run_end_time_is_last_finish:
  "end_time (session_run s ops) =
     (if finish_times ops = [] then end_time s else Some (last (finish_times ops)))
   \<and> end_time (add_result s r) = end_time s
   \<and> end_time (finish s t) = Some t"
  by (simp add: session_run_end_time add_result_def finish_def)

theorem session_run_end_time_is_last_finish_witness:
  "end_time (session_run (new_test_session ''1b4e28ba-2fa1-11d2-883f-0016d3cca427'' 0)
      [Finish 5, AddResult (new_test_result ''example'' ''/pix'' ''GET'' 6), GetDuration]) = Some 5"
  using session_run_end_time_is_last_finish
    [of "new_test_session ''1b4e28ba-2fa1-11d2-883f-0016d3cca427'' 0"
        "[Finish 5, AddResult (new_test_result ''example'' ''/pix'' ''GET'' 6), GetDuration]"]
  by simp

text \<open>The claim as stated fails on a second \<open>finish\<close>: the end time set by the
  first one changes.\<close>

theorem finish_twice_counterexample:
  "end_time (finish (finish (new_test_session ''1b4e28ba-2fa1-11d2-883f-0016d3cca427'' 0) 5) 9) \<noteq>
   end_time (finish (new_test_session ''1b4e28ba-2fa1-11d2-883f-0016d3cca427'' 0) 5)"
  by (simp add: finish_def)

subsection \<open>Successful authentication\<close>

text \<open>C5 (amended): when the token request is answered with status 200 and a JSON object
  that has an \<open>access_token\<close> entry, \<open>authenticate\<close> returns success, stores
  the value of that entry, and appends a successful result whose body shows the token as
  \<open>***\<close>. If the stored value is truthy (a non-empty string, for one), every call
  the executor makes afterwards, until an authentication succeeds again, carries the
  headers \<open>Authorization: Bearer\<close> with that value and the content type.\<close>

theorem authenticate_stores_token:
  assumes "outcome env = Responded r" and "status_code r = 200"
    and "resp_json r = Some (JObj td)" and "map_of td ''access_token'' = Some tok"
  shows "fst (authenticate st env)
       \<and> access_token (snd (authenticate st env)) = tok
       \<and> (\<exists>res. results (session (snd (authenticate st env))) = results (session st) @ [res]
             \<and> success res
             \<and> response_body res =
                 JObj [(''access_token'', JStr ''***''), (''expires_in'', dict_get td ''expires_in'')])
       \<and> (truthy tok \<longrightarrow>
            (\<forall>ops. (\<forall>op \<in> set ops. \<not> successful_auth op) \<longrightarrow>
               (\<forall>c \<in> set (drop (length (wire (snd (authenticate st env))))
                              (wire (run_ops (snd (authenticate st env)) ops))).
                  executor_call c \<longrightarrow>
                  call_headers c =
                    Some [(''Authorization'', Bearer tok),
                          (''Content-Type'', Text ''application/json'')])))"
proof -
  let ?st1 = "snd (authenticate st env)"
  note acc = authenticate_accepted [OF assms(1) assms(2) assms(3), of st]
  have tok: "access_token ?st1 = tok"
    using acc(2) assms(4) by (simp add: dict_get_def)
  have hdr: "truthy tok \<Longrightarrow> sent_headers ?st1 =
      [(''Authorization'', Bearer tok), (''Content-Type'', Text ''application/json'')]"
    by (simp add: sent_headers_def get_headers_def tok)
  have "\<exists>res. results (session ?st1) = results (session st) @ [res] \<and> success res
      \<and> response_body res =
          JObj [(''access_token'', JStr ''***''), (''expires_in'', dict_get td ''expires_in'')]"
    by (simp add: acc(3))
  moreover have "truthy tok \<longrightarrow>
      (\<forall>ops. (\<forall>op \<in> set ops. \<not> successful_auth op) \<longrightarrow>
         (\<forall>c \<in> set (drop (length (wire ?st1)) (wire (run_ops ?st1 ops))).
            executor_call c \<longrightarrow>
            call_headers c =
              Some [(''Authorization'', Bearer tok), (''Content-Type'', Text ''application/json'')]))"
    using run_ops_new_calls [of _ _ ?st1] hdr by metis
  ultimately show ?thesis
    using acc(1) tok by blast
qed

theorem authenticate_stores_token_witness:
  "fst (authenticate example_tester (example_env (Responded (example_token_response ''tok''))))
   \<and> access_token (snd (authenticate example_tester
        (example_env (Responded (example_token_response ''tok''))))) = JStr ''tok''
   \<and> map call_headers (drop 1 (wire (run_ops (snd (authenticate example_tester
          (example_env (Responded (example_token_response ''tok'')))))
        [Request (example_request ''POST'' (Responded (example_response 200 ''{}'' (Some (JObj [])))))])))
      = [Some [(''Authorization'', Bearer (JStr ''tok'')),
               (''Content-Type'', Text ''application/json'')]]"
proof -
  let ?st1 = "snd (authenticate example_tester
        (example_env (Responded (example_token_response ''tok''))))"
  note stored = authenticate_stores_token [OF example_token_outcome, where st = example_tester]
  have tok: "access_token ?st1 = JStr ''tok''" and ok: "fst (authenticate example_tester
        (example_env (Responded (example_token_response ''tok''))))"
    using stored by simp_all
  have w: "wire ?st1 = [PostForm (BASE_URL example_config @ ''/v5/token'')
                [(''client_id'', CLIENT_ID example_config),
                 (''client_secret'', CLIENT_SECRET example_config),
                 (''grant_type'', ''client_credentials'')]]"
    by (simp add: authenticate_wire example_tester_fields)
  have "wire (run_ops ?st1
        [Request (example_request ''POST'' (Responded (example_response 200 ''{}'' (Some (JObj [])))))])
      = wire ?st1 @ [Post ''https://sandbox.openfinance.celcoin.dev/pix/v1/payment''
           (sent_headers ?st1) (JObj [(''amount'', JInt 1)])]"
    by (simp add: run_ops_def do_request_def make_request_wire example_request_def select_call_def
        upper_POST)
  then show ?thesis
    using ok tok by (simp add: w sent_headers_def get_headers_def)
qed

text \<open>The claim as stated fails for the empty token: it is stored and the call
  succeeds, yet the next call of the executor carries the content type only.\<close>

theorem empty_token_counterexample:
  "fst (authenticate example_tester (example_env (Responded (example_token_response []))))
   \<and> access_token (snd (authenticate example_tester
        (example_env (Responded (example_token_response []))))) = JStr []
   \<and> map call_headers (drop 1 (wire (run_ops (snd (authenticate example_tester
          (example_env (Responded (example_token_response [])))))
        [Request (example_request ''POST'' (Responded (example_response 200 ''{}'' (Some (JObj [])))))])))
      = [Some [(''Content-Type'', Text ''application/json'')]]"
proof -
  let ?st1 = "snd (authenticate example_tester
        (example_env (Responded (example_token_response []))))"
  note acc = authenticate_accepted [OF example_token_outcome(1-3), where st = example_tester]
  have tok: "access_token ?st1 = JStr []"
    using acc(2) by (simp add: dict_get_def)
  have w: "wire ?st1 = [PostForm (BASE_URL example_config @ ''/v5/token'')
                [(''client_id'', CLIENT_ID example_config),
                 (''client_secret'', CLIENT_SECRET example_config),
                 (''grant_type'', ''client_credentials'')]]"
    by (simp add: authenticate_wire example_tester_fields)
  have "wire (run_ops ?st1
        [Request (example_request ''POST'' (Responded (example_response 200 ''{}'' (Some (JObj [])))))])
      = wire ?st1 @ [Post ''https://sandbox.openfinance.celcoin.dev/pix/v1/payment''
           (sent_headers ?st1) (JObj [(''amount'', JInt 1)])]"
    by (simp add: run_ops_def do_request_def make_request_wire example_request_def select_call_def
        upper_POST)
  then show ?thesis
    using acc(1) tok by (simp add: w sent_headers_def bare_headers_def)
qed

subsection \<open>Bodies that are not JSON\<close>

text \<open>C6: when the executor receives a response whose body is not valid JSON, the
  result's body is the dictionary with the raw text under \<open>raw_response\<close>, the
  success flag is still decided by the status code alone, and the result is returned and
  recorded like any other.\<close>

theorem make_request_raw_response:
  assumes "upper meth \<in> {''POST'', ''GET'', ''PUT'', ''DELETE''}"
    and "outcome env = Responded response" and "resp_json response = None"
  shows "response_body (fst (make_request st meth url payload params name env)) =
           JObj [(''raw_response'', JStr (resp_text response))]
       \<and> success (fst (make_request st meth url payload params name env)) =
           (status_code response \<in> {200, 201, 202})
       \<and> results (session (snd (make_request st meth url payload params name env))) =
           results (session st) @ [fst (make_request st meth url payload params name env)]"
  using assms(3)
  by (simp add: make_request_responded [OF assms(1,2)] make_request_results Let_def new_test_result_def)

theorem make_request_raw_response_witness:
  "response_body (fst (make_request example_tester ''GET''
       ''https://sandbox.openfinance.celcoin.dev/pix/v1/payment/status'' JNull JNull ''example''
       (example_env (Responded (example_response 200 ''<html>ok</html>'' None))))) =
     JObj [(''raw_response'', JStr ''<html>ok</html>'')]
   \<and> success (fst (make_request example_tester ''GET''
       ''https://sandbox.openfinance.celcoin.dev/pix/v1/payment/status'' JNull JNull ''example''
       (example_env (Responded (example_response 200 ''<html>ok</html>'' None)))))"
proof -
  have g: "upper ''GET'' \<in> {''POST'', ''GET'', ''PUT'', ''DELETE''}"
    by (simp add: upper_GET)
  have o: "outcome (example_env (Responded (example_response 200 ''<html>ok</html>'' None))) =
      Responded (example_response 200 ''<html>ok</html>'' None)"
    by (simp add: example_env_def)
  have j: "resp_json (example_response 200 ''<html>ok</html>'' None) = None"
    by (simp add: example_response_def)
  show ?thesis
    using make_request_raw_response [OF g o j] by (simp add: example_response_def)
qed

subsection \<open>The pipeline\<close>

text \<open>C7 (amended): if authentication fails, the pipeline stops there: its final state
  is the state after \<open>authenticate\<close> and the token request is the only call made.
  When the failure is a raise, the session is unchanged (a fresh session holds no result);
  when it is a status other than 200 with an empty or JSON body, the session gains exactly
  the one failed authentication result, whose error message contains the status code. If
  authentication succeeds, the four steps all run, in order, whatever the outcome of each:
  the session gains the authentication result and one result per step, and five calls are
  made.\<close>

theorem run_pipeline_test_gate:
  "(\<not> fst (authenticate st (auth_env pe)) \<longrightarrow>
      run_pipeline_test st pe = snd (authenticate st (auth_env pe))
      \<and> length (wire (run_pipeline_test st pe)) = length (wire st) + 1
      \<and> (\<forall>m. outcome (auth_env pe) = Raised m \<longrightarrow>
            session (run_pipeline_test st pe) = session st)
      \<and> (\<forall>r. outcome (auth_env pe) = Responded r \<and> status_code r \<noteq> 200
               \<and> (resp_text r = [] \<or> resp_json r \<noteq> None) \<longrightarrow>
            (\<exists>res. results (session (run_pipeline_test st pe)) = results (session st) @ [res]
               \<and> \<not> success res
               \<and> error_message res = Some (auth_error (status_code r))
               \<and> contains (auth_error (status_code r)) (str_int (status_code r)))))
   \<and> (fst (authenticate st (auth_env pe)) \<longrightarrow>
        (\<exists>a r2 r3 r4 r5.
           results (session (run_pipeline_test st pe)) = results (session st) @ [a, r2, r3, r4, r5]
           \<and> success a \<and> test_name a = auth_name
           \<and> test_name r2 = ''DICT Lookup - EMAIL''
           \<and> test_name r3 = ''Pagamento PIX - R$ 10.50''
           \<and> test_name r4 = ''Status PIX - 12345678...''
           \<and> test_name r5 = ''TED Transfer - R$ 100.00'')
        \<and> length (wire (run_pipeline_test st pe)) = length (wire st) + 5)"
proof (intro conjI impI)
  assume f: "\<not> fst (authenticate st (auth_env pe))"
  show run: "run_pipeline_test st pe = snd (authenticate st (auth_env pe))"
    using f by (rule run_pipeline_test_failed)
  show "length (wire (run_pipeline_test st pe)) = length (wire st) + 1"
    by (simp add: run authenticate_wire)
  show "\<forall>m. outcome (auth_env pe) = Raised m \<longrightarrow> session (run_pipeline_test st pe) = session st"
    by (simp add: run authenticate_raised)
  show "\<forall>r. outcome (auth_env pe) = Responded r \<and> status_code r \<noteq> 200
               \<and> (resp_text r = [] \<or> resp_json r \<noteq> None) \<longrightarrow>
            (\<exists>res. results (session (run_pipeline_test st pe)) = results (session st) @ [res]
               \<and> \<not> success res
               \<and> error_message res = Some (auth_error (status_code r))
               \<and> contains (auth_error (status_code r)) (str_int (status_code r)))"
  proof (intro allI impI)
    fix r
    assume h: "outcome (auth_env pe) = Responded r \<and> status_code r \<noteq> 200
               \<and> (resp_text r = [] \<or> resp_json r \<noteq> None)"
    then obtain res where "results (session (snd (authenticate st (auth_env pe)))) =
        results (session st) @ [res]" "\<not> success res"
      "error_message res = Some (auth_error (status_code r))"
      using authenticate_rejected [of "auth_env pe" r st] by blast
    then show "\<exists>res. results (session (run_pipeline_test st pe)) = results (session st) @ [res]
               \<and> \<not> success res
               \<and> error_message res = Some (auth_error (status_code r))
               \<and> contains (auth_error (status_code r)) (str_int (status_code r))"
      using contains_auth_error by (auto simp: run)
  qed
next
  assume ok: "fst (authenticate st (auth_env pe))"
  obtain a where a: "results (session (snd (authenticate st (auth_env pe)))) =
      results (session st) @ [a]" "success a" "test_name a = auth_name"
    using authenticate_success_result [OF ok] by blast
  obtain r2 r3 r4 r5 where "results (session (run_pipeline_test st pe)) =
       results (session (snd (authenticate st (auth_env pe)))) @ [r2, r3, r4, r5]"
     "test_name r2 = ''DICT Lookup - EMAIL''" "test_name r3 = ''Pagamento PIX - R$ 10.50''"
     "test_name r4 = ''Status PIX - 12345678...''" "test_name r5 = ''TED Transfer - R$ 100.00''"
    using pipeline_steps_results [OF ok] by blast
  with a show "\<exists>a r2 r3 r4 r5.
           results (session (run_pipeline_test st pe)) = results (session st) @ [a, r2, r3, r4, r5]
           \<and> success a \<and> test_name a = auth_name
           \<and> test_name r2 = ''DICT Lookup - EMAIL''
           \<and> test_name r3 = ''Pagamento PIX - R$ 10.50''
           \<and> test_name r4 = ''Status PIX - 12345678...''
           \<and> test_name r5 = ''TED Transfer - R$ 100.00''"
    by (intro exI [of _ a] exI [of _ r2] exI [of _ r3] exI [of _ r4] exI [of _ r5]) simp
  show "length (wire (run_pipeline_test st pe)) = length (wire st) + 5"
    using ok by (rule pipeline_steps_wire)
qed

theorem run_pipeline_test_gate_witness:
  "length (results (session (run_pipeline_test example_tester
      (example_pipeline_env (Responded (example_response 401 [] None))
         (Raised ''Connection timed out''))))) = 1
   \<and> length (results (session (run_pipeline_test example_tester
      (example_pipeline_env (Responded (example_token_response ''tok''))
         (Responded (example_response 500 ''oops'' None)))))) = 5"
proof -
  let ?pe1 = "example_pipeline_env (Responded (example_response 401 [] None))
         (Raised ''Connection timed out'')"
  let ?pe2 = "example_pipeline_env (Responded (example_token_response ''tok''))
         (Responded (example_response 500 ''oops'' None))"
  have f: "\<not> fst (authenticate example_tester (auth_env ?pe1))"
    by (simp add: authenticate_returns auth_succeeds_def example_pipeline_auth example_response_def)
  have ok: "fst (authenticate example_tester (auth_env ?pe2))"
    by (simp add: authenticate_returns auth_succeeds_def example_pipeline_auth
        example_token_response_def example_response_def)
  have r: "outcome (auth_env ?pe1) = Responded (example_response 401 [] None)
      \<and> status_code (example_response 401 [] None) \<noteq> 200
      \<and> (resp_text (example_response 401 [] None) = []
          \<or> resp_json (example_response 401 [] None) \<noteq> None)"
    by (simp add: example_pipeline_auth example_response_def)
  from run_pipeline_test_gate [of example_tester ?pe1] f r
  have "\<exists>res. results (session (run_pipeline_test example_tester ?pe1)) =
      results (session example_tester) @ [res]"
    by blast
  moreover from run_pipeline_test_gate [of example_tester ?pe2] ok
  have "\<exists>a r2 r3 r4 r5. results (session (run_pipeline_test example_tester ?pe2)) =
      results (session example_tester) @ [a, r2, r3, r4, r5]"
    by blast
  ultimately show ?thesis
    by (auto simp: example_tester_fields)
qed

text \<open>The claim as stated fails when the token request raises: authentication fails
  and the session of a fresh tester holds no result, not one.\<close>

theorem pipeline_exception_counterexample:
  "\<not> fst (authenticate example_tester (example_env (Raised ''Connection timed out'')))
   \<and> results (session (run_pipeline_test example_tester
      (example_pipeline_env (Raised ''Connection timed out'')
         (Responded (example_response 200 ''{}'' (Some (JObj []))))))) = []"
proof -
  have f: "\<not> fst (authenticate example_tester (example_env (Raised ''Connection timed out'')))"
    by (simp add: authenticate_returns auth_succeeds_def example_pipeline_auth)
  then show ?thesis
    by (simp add: run_pipeline_test_failed example_pipeline_auth authenticate_raised
        example_tester_fields)
qed

subsection \<open>The report\<close>

text \<open>C8: for an empty list of results the aggregate timing block is left out
  (\<open>None\<close>) and raises nothing; the block never raises, and it is left out only for
  the empty list. Its division by the number of results is therefore never a division by
  zero.\<close>

theorem metrics_block_guarded:
  "metrics_block [] = Inr None
   \<and> metrics_block rs \<noteq> Inl e
   \<and> (metrics_block rs = Inr None) = (rs = [])"
proof -
  obtain m where "metrics_block rs = Inr m"
    using metrics_block_total by blast
  then have "metrics_block rs \<noteq> Inl e" by simp
  then show ?thesis
    by (simp add: metrics_block_none)
qed

theorem metrics_block_guarded_witness:
  "metrics_block (results (session example_tester)) = Inr None"
  using metrics_block_guarded [of "results (session example_tester)" ZeroDivisionError]
  by (simp add: example_tester_fields)

text \<open>C9: the success rate of the summary divides by the number of results without a
  guard. \<open>generate_report\<close> raises \<open>ZeroDivisionError\<close> exactly when the
  session holds no result, the summary being where it is raised; so a report is returned
  only for a session with at least one result.\<close>

theorem generate_report_division_by_zero:
  "(generate_report s base_url t = Inl ZeroDivisionError) = (results s = [])
   \<and> (summary_block s = Inl ZeroDivisionError) = (results s = [])
   \<and> (generate_report s base_url t = Inr rep \<longrightarrow> results s \<noteq> [])"
proof -
  have a: "(generate_report s base_url t = Inl ZeroDivisionError) = (results s = [])"
    by (rule generate_report_zero_div)
  have b: "(summary_block s = Inl ZeroDivisionError) = (results s = [])"
    by (simp add: summary_block_def py_div_def Let_def)
  have c: "generate_report s base_url t = Inr rep \<longrightarrow> results s \<noteq> []"
    using a by auto
  from a b c show ?thesis by blast
qed

theorem generate_report_division_by_zero_witness:
  "generate_report (session example_tester) (BASE_URL example_config) 2000000 =
     Inl ZeroDivisionError
   \<and> generate_report (session (snd (make_request example_tester ''GET''
        ''https://sandbox.openfinance.celcoin.dev/pix/v1/payment/status'' JNull JNull ''example''
        (example_env (Raised ''Connection timed out''))))) (BASE_URL example_config) 2000000 \<noteq>
     Inl ZeroDivisionError"
  using generate_report_division_by_zero [of "session example_tester" "BASE_URL example_config"
      2000000 undefined]
    generate_report_division_by_zero [of "session (snd (make_request example_tester ''GET''
        ''https://sandbox.openfinance.celcoin.dev/pix/v1/payment/status'' JNull JNull ''example''
        (example_env (Raised ''Connection timed out''))))" "BASE_URL example_config"
      2000000 undefined]
  by (simp add: example_tester_fields make_request_results)

subsection \<open>A token response without a token\<close>




end
